theory Spec2Isabelle
  imports Complex_Main "HOL-Library.AList"
begin

section \<open>Bearing calculator (server.py, calculate_qibla_direction)\<close>

text \<open>
  Python floats are read as real numbers: \<open>math.sin\<close>, \<open>math.cos\<close>, \<open>math.tan\<close> are the
  real functions, \<open>math.radians\<close> and \<open>math.degrees\<close> multiply by \<open>pi / 180\<close> and
  \<open>180 / pi\<close>. Rounding errors of binary floating point are outside this model; what is
  kept is the order of the operations and the final decimal rounding.
\<close>

definition KAABA_LAT :: real where
  "KAABA_LAT = 21.4225"

definition KAABA_LNG :: real where
  "KAABA_LNG = 39.8262"

definition radians :: "real \<Rightarrow> real" where
  "radians d = d * pi / 180"

definition degrees :: "real \<Rightarrow> real" where
  "degrees r = r * 180 / pi"

text \<open>
  \<open>math.atan2 a b\<close> on reals: the angle in \<open>(-pi, pi]\<close> of the point with abscissa \<open>b\<close>
  and ordinate \<open>a\<close>; \<open>atan2 0 0 = 0\<close> as in the C library.
\<close>

definition atan2 :: "real \<Rightarrow> real \<Rightarrow> real" where
  "atan2 a b =
     (if 0 < b then arctan (a / b)
      else if b < 0 then (if 0 \<le> a then arctan (a / b) + pi else arctan (a / b) - pi)
      else if 0 < a then pi / 2
      else if a < 0 then - (pi / 2)
      else 0)"

text \<open>
  Python's \<open>round(x, ndigits)\<close> rounds to the nearest multiple of \<open>10 ^ (- ndigits)\<close>,
  a tie going to the even neighbour.
\<close>

definition round_half_even :: "real \<Rightarrow> int" where
  "round_half_even r =
     (let f = \<lfloor>r\<rfloor>; d = r - of_int f
      in if d < 1 / 2 then f
         else if 1 / 2 < d then f + 1
         else if even f then f else f + 1)"

definition py_round :: "real \<Rightarrow> nat \<Rightarrow> real" where
  "py_round x ndigits = of_int (round_half_even (x * 10 ^ ndigits)) / 10 ^ ndigits"

definition calculate_qibla_direction :: "real \<Rightarrow> real \<Rightarrow> real" where
  "calculate_qibla_direction lat lng =
     (let lat_rad = radians lat;
          lng_rad = radians lng;
          kaaba_lat_rad = radians KAABA_LAT;
          kaaba_lng_rad = radians KAABA_LNG;
          delta_lng = kaaba_lng_rad - lng_rad;
          x = sin delta_lng;
          y = cos lat_rad * tan kaaba_lat_rad - sin lat_rad * cos delta_lng;
          qibla = degrees (atan2 x y);
          qibla = (if qibla < 0 then qibla + 360 else qibla)
      in py_round qibla 2)"

text \<open>
  The forward azimuth as section 4.1 of the specification words it, steps 1 to 6, with
  the reference point written out.
\<close>

definition computeBearing :: "real \<Rightarrow> real \<Rightarrow> real" where
  "computeBearing originLat originLng =
     (let originLatRad = originLat * pi / 180;
          originLngRad = originLng * pi / 180;
          referenceLatRad = 21.4225 * pi / 180;
          referenceLngRad = 39.8262 * pi / 180;
          deltaLng = referenceLngRad - originLngRad;
          x = sin deltaLng;
          y = cos originLatRad * tan referenceLatRad - sin originLatRad * cos deltaLng;
          bearing = atan2 x y * 180 / pi;
          normalized = (if bearing < 0 then bearing + 360 else bearing)
      in of_int (round_half_even (normalized * 100)) / 100)"

section \<open>Settings documents and the store (server.py, UserSettings, UserSettingsUpdate)\<close>

text \<open>
  A stored document is a dictionary from field names to values. \<open>VNone\<close> is Python's
  \<open>None\<close>, \<open>VObjectId\<close> the identifier the database driver adds under \<open>_id\<close>, and a
  \<open>datetime\<close> is a point on the clock, counted in microseconds.
\<close>

type_synonym datetime = nat

datatype val =
    VNone
  | VBool bool
  | VInt int
  | VFloat real
  | VStr string
  | VDatetime datetime
  | VObjectId nat

type_synonym doc = "(string \<times> val) list"

record UserSettingsUpdate =
  language :: "string option"
  theme :: "string option"
  notification_enabled :: "bool option"
  notification_sound :: "string option"
  calculation_method :: "int option"
  latitude :: "real option"
  longitude :: "real option"
  city :: "string option"
  country :: "string option"

record UserSettings =
  id :: string
  device_id :: string
  language :: string
  theme :: string
  notification_enabled :: bool
  notification_sound :: string
  calculation_method :: int
  latitude :: "real option"
  longitude :: "real option"
  city :: "string option"
  country :: "string option"
  created_at :: datetime
  updated_at :: datetime

text \<open>
  The exceptions the handlers can meet: one raised by a store operation or by the call to
  the timing provider (with its message), the ones Python raises on a value of the
  wrong shape, and \<open>ValueError\<close> (a math domain error, a value with no JSON encoding).
\<close>

datatype py_exception =
    StoreError string
  | UpstreamError string
  | KeyError string
  | TypeError
  | AttributeError
  | ValueError

text \<open>
  What a call reads from outside: the string of \<open>uuid.uuid4()\<close>, the successive readings
  of \<open>datetime.utcnow()\<close> (numbered from 0 within the call), the \<open>ObjectId\<close> the driver
  generates for an insert, and, for each store operation of the call (numbered from 0),
  the exception it raises, if it raises.
\<close>

record env =
  uuid4 :: string
  utcnow :: "nat \<Rightarrow> datetime"
  object_id :: nat
  db_fault :: "nat \<Rightarrow> py_exception option"

definition opt :: "('a \<Rightarrow> val) \<Rightarrow> 'a option \<Rightarrow> val" where
  "opt f x = (case x of None \<Rightarrow> VNone | Some v \<Rightarrow> f v)"

definition UserSettingsUpdate_dict :: "UserSettingsUpdate \<Rightarrow> doc" where
  "UserSettingsUpdate_dict s =
     [(''language'', opt VStr (UserSettingsUpdate.language s)),
      (''theme'', opt VStr (UserSettingsUpdate.theme s)),
      (''notification_enabled'', opt VBool (UserSettingsUpdate.notification_enabled s)),
      (''notification_sound'', opt VStr (UserSettingsUpdate.notification_sound s)),
      (''calculation_method'', opt VInt (UserSettingsUpdate.calculation_method s)),
      (''latitude'', opt VFloat (UserSettingsUpdate.latitude s)),
      (''longitude'', opt VFloat (UserSettingsUpdate.longitude s)),
      (''city'', opt VStr (UserSettingsUpdate.city s)),
      (''country'', opt VStr (UserSettingsUpdate.country s))]"

definition UserSettings_dict :: "UserSettings \<Rightarrow> doc" where
  "UserSettings_dict s =
     [(''id'', VStr (UserSettings.id s)),
      (''device_id'', VStr (UserSettings.device_id s)),
      (''language'', VStr (UserSettings.language s)),
      (''theme'', VStr (UserSettings.theme s)),
      (''notification_enabled'', VBool (UserSettings.notification_enabled s)),
      (''notification_sound'', VStr (UserSettings.notification_sound s)),
      (''calculation_method'', VInt (UserSettings.calculation_method s)),
      (''latitude'', opt VFloat (UserSettings.latitude s)),
      (''longitude'', opt VFloat (UserSettings.longitude s)),
      (''city'', opt VStr (UserSettings.city s)),
      (''country'', opt VStr (UserSettings.country s)),
      (''created_at'', VDatetime (UserSettings.created_at s)),
      (''updated_at'', VDatetime (UserSettings.updated_at s))]"

text \<open>
  \<open>UserSettings(device_id=device_id, **{k: v for k, v in settings.dict().items() if v is not None})\<close>:
  a field of the patch that is not \<open>None\<close> is passed as a keyword argument, every other
  field takes its declared default. The default factories run in field order:
  \<open>uuid4\<close> for \<open>id\<close>, then \<open>utcnow\<close> for \<open>created_at\<close>, then \<open>utcnow\<close> again for
  \<open>updated_at\<close>.
\<close>

definition kwarg :: "'a \<Rightarrow> 'a option \<Rightarrow> 'a" where
  "kwarg dflt x = (case x of None \<Rightarrow> dflt | Some v \<Rightarrow> v)"

definition UserSettings_init :: "env \<Rightarrow> string \<Rightarrow> UserSettingsUpdate \<Rightarrow> UserSettings" where
  "UserSettings_init e dev s =
     \<lparr> id = uuid4 e,
       device_id = dev,
       language = kwarg ''tr'' (UserSettingsUpdate.language s),
       theme = kwarg ''dark'' (UserSettingsUpdate.theme s),
       notification_enabled = kwarg True (UserSettingsUpdate.notification_enabled s),
       notification_sound = kwarg ''default'' (UserSettingsUpdate.notification_sound s),
       calculation_method = kwarg 13 (UserSettingsUpdate.calculation_method s),
       latitude = UserSettingsUpdate.latitude s,
       longitude = UserSettingsUpdate.longitude s,
       city = UserSettingsUpdate.city s,
       country = UserSettingsUpdate.country s,
       created_at = utcnow e 0,
       updated_at = utcnow e 1 \<rparr>"

subsection \<open>The collection \<open>db.user_settings\<close>\<close>

text \<open>
  The collection is the list of its documents in insertion order. The filter
  \<open>{"device_id": device_id}\<close> selects the documents whose \<open>device_id\<close> field is that
  string; \<open>find_one\<close> returns the first of them, \<open>update_one\<close> with \<open>$set\<close> assigns the
  given fields in the first of them, \<open>insert_one\<close> appends the document with a new \<open>_id\<close>.
\<close>

definition matches :: "string \<Rightarrow> doc \<Rightarrow> bool" where
  "matches dev d = (map_of d ''device_id'' = Some (VStr dev))"

definition find_one :: "doc list \<Rightarrow> string \<Rightarrow> doc option" where
  "find_one coll dev = find (matches dev) coll"

fun set_fields :: "doc \<Rightarrow> doc \<Rightarrow> doc" where
  "set_fields [] d = d"
| "set_fields ((k, v) # us) d = set_fields us (AList.update k v d)"

fun update_one :: "doc list \<Rightarrow> string \<Rightarrow> doc \<Rightarrow> doc list" where
  "update_one [] dev us = []"
| "update_one (d # ds) dev us =
     (if matches dev d then set_fields us d # ds else d # update_one ds dev us)"

definition insert_one :: "env \<Rightarrow> doc list \<Rightarrow> doc \<Rightarrow> doc list" where
  "insert_one e coll d = coll @ [(''_id'', VObjectId (object_id e)) # d]"

text \<open>Python's truth value of \<open>find_one\<close>'s result: \<open>None\<close> and the empty dictionary are false.\<close>

definition truthy :: "doc option \<Rightarrow> bool" where
  "truthy r = (case r of None \<Rightarrow> False | Some d \<Rightarrow> d \<noteq> [])"

subsection \<open>The settings endpoints (server.py, create_or_update_settings, get_settings)\<close>

text \<open>
  \<open>HTTPException status prefix ex\<close>: the status code, and the detail, which is the prefix
  followed by \<open>str\<close> of the exception \<open>ex\<close>. The response body
  \<open>{"success": ..., "data": ...}\<close> is a record over the type of its data.
\<close>

datatype http_exception = HTTPException int string py_exception

record 'a response =
  success :: bool
  data :: 'a

text \<open>
  The update branch's \<open>update_data\<close>: the fields of the patch that are not \<open>None\<close>,
  then \<open>updated_at\<close> set to the clock.
\<close>

definition update_data_of :: "env \<Rightarrow> UserSettingsUpdate \<Rightarrow> doc" where
  "update_data_of e settings =
     (let update_data = filter (\<lambda>(k, v). v \<noteq> VNone) (UserSettingsUpdate_dict settings)
      in AList.update ''updated_at'' (VDatetime (utcnow e 0)) update_data)"

text \<open>
  The handler takes the collection and returns it with the result. Its store operations
  are numbered 0 (\<open>find_one\<close>), 1 (\<open>update_one\<close> or \<open>insert_one\<close>) and 2 (the second
  \<open>find_one\<close>); an exception of any of them is caught and becomes status 500.
\<close>

definition create_or_update_settings ::
  "env \<Rightarrow> doc list \<Rightarrow> string \<Rightarrow> UserSettingsUpdate
     \<Rightarrow> doc list \<times> (http_exception + doc option response)" where
  "create_or_update_settings e coll dev settings =
     (case db_fault e 0 of
        Some ex \<Rightarrow> (coll, Inl (HTTPException 500 [] ex))
      | None \<Rightarrow>
          let existing = find_one coll dev in
          if truthy existing then
            let update_data = update_data_of e settings
            in (case db_fault e 1 of
                  Some ex \<Rightarrow> (coll, Inl (HTTPException 500 [] ex))
                | None \<Rightarrow>
                    let coll' = update_one coll dev update_data in
                    (case db_fault e 2 of
                       Some ex \<Rightarrow> (coll', Inl (HTTPException 500 [] ex))
                     | None \<Rightarrow>
                         let updated = find_one coll' dev in
                         (coll', Inr \<lparr> success = True, data = updated \<rparr>)))
          else
            let new_settings = UserSettings_init e dev settings in
            (case db_fault e 1 of
               Some ex \<Rightarrow> (coll, Inl (HTTPException 500 [] ex))
             | None \<Rightarrow>
                 (insert_one e coll (UserSettings_dict new_settings),
                  Inr \<lparr> success = True, data = Some (UserSettings_dict new_settings) \<rparr>)))"

text \<open>
  \<open>get_settings\<close> has no handler of its own for a store exception: it leaves the function
  (\<open>Inl\<close> with the exception).
\<close>

definition get_settings ::
  "env \<Rightarrow> doc list \<Rightarrow> string \<Rightarrow> py_exception + doc option response" where
  "get_settings e coll dev =
     (case db_fault e 0 of
        Some msg \<Rightarrow> Inl msg
      | None \<Rightarrow>
          let settings = find_one coll dev in
          if truthy settings then
            Inr \<lparr> success = True, data = map_option (AList.delete ''_id'') settings \<rparr>
          else Inr \<lparr> success = True, data = None \<rparr>)"

text \<open>A sequence of upsert requests, handled one after the other on the same collection.\<close>

type_synonym upsert_request = "env \<times> string \<times> UserSettingsUpdate"

fun run_upserts :: "doc list \<Rightarrow> upsert_request list \<Rightarrow> doc list" where
  "run_upserts coll [] = coll"
| "run_upserts coll ((e, dev, settings) # rs) =
     run_upserts (fst (create_or_update_settings e coll dev settings)) rs"

text \<open>The device a request of a sequence is for.\<close>

definition request_device :: "upsert_request \<Rightarrow> string" where
  "request_device r = fst (snd r)"

definition count_device :: "doc list \<Rightarrow> string \<Rightarrow> nat" where
  "count_device coll dev = length (filter (matches dev) coll)"

definition no_fault :: "env \<Rightarrow> bool" where
  "no_fault e = (\<forall>i. db_fault e i = None)"

text \<open>A field is patched when the patch carries a value for it that is not \<open>None\<close>.\<close>

definition patched :: "UserSettingsUpdate \<Rightarrow> string \<Rightarrow> bool" where
  "patched settings k =
     (case map_of (UserSettingsUpdate_dict settings) k of
        None \<Rightarrow> False
      | Some v \<Rightarrow> v \<noteq> VNone)"

subsection \<open>The calculation methods (server.py, get_calculation_methods)\<close>

text \<open>
  The list of the source, entry by entry. A character outside ASCII is written as the bytes
  of its UTF-8 encoding.
\<close>

definition methods :: "doc list" where
  "methods =
     [
      [(''id'', VInt 0),
       (''name'', VStr ''Shia Ithna-Ashari''),
       (''name_tr'', VStr ([CHR 0xC5, CHR 0x9E] @ ''ii '' @ [CHR 0xC4, CHR 0xB0] @ ''sna A'' @ [CHR 0xC5, CHR 0x9F] @ ''eri''))],
      [(''id'', VInt 1),
       (''name'', VStr ''University of Islamic Sciences, Karachi''),
       (''name_tr'', VStr (''Karachi '' @ [CHR 0xC3, CHR 0x9C] @ ''niversitesi''))],
      [(''id'', VInt 2),
       (''name'', VStr ''Islamic Society of North America''),
       (''name_tr'', VStr ''ISNA'')],
      [(''id'', VInt 3),
       (''name'', VStr ''Muslim World League''),
       (''name_tr'', VStr (''M'' @ [CHR 0xC3, CHR 0xBC] @ ''sl'' @ [CHR 0xC3, CHR 0xBC] @ ''man D'' @ [CHR 0xC3, CHR 0xBC] @ ''nya Birli'' @ [CHR 0xC4, CHR 0x9F] @ ''i''))],
      [(''id'', VInt 4),
       (''name'', VStr ''Umm Al-Qura University, Makkah''),
       (''name_tr'', VStr ([CHR 0xC3, CHR 0x9C] @ ''mm'' @ [CHR 0xC3, CHR 0xBC] @ ''l Kura''))],
      [(''id'', VInt 5),
       (''name'', VStr ''Egyptian General Authority of Survey''),
       (''name_tr'', VStr (''M'' @ [CHR 0xC4, CHR 0xB1] @ ''s'' @ [CHR 0xC4, CHR 0xB1] @ ''r''))],
      [(''id'', VInt 7),
       (''name'', VStr ''Institute of Geophysics, University of Tehran''),
       (''name_tr'', VStr ''Tahran'')],
      [(''id'', VInt 8),
       (''name'', VStr ''Gulf Region''),
       (''name_tr'', VStr (''K'' @ [CHR 0xC3, CHR 0xB6] @ ''rfez B'' @ [CHR 0xC3, CHR 0xB6] @ ''lgesi''))],
      [(''id'', VInt 9),
       (''name'', VStr ''Kuwait''),
       (''name_tr'', VStr ''Kuveyt'')],
      [(''id'', VInt 10),
       (''name'', VStr ''Qatar''),
       (''name_tr'', VStr ''Katar'')],
      [(''id'', VInt 11),
       (''name'', VStr ''Majlis Ugama Islam Singapura''),
       (''name_tr'', VStr ''Singapur'')],
      [(''id'', VInt 12),
       (''name'', VStr ''Union Organization Islamic de France''),
       (''name_tr'', VStr ''Fransa'')],
      [(''id'', VInt 13),
       (''name'', VStr (''Diyanet '' @ [CHR 0xC4, CHR 0xB0, CHR 0xC5, CHR 0x9F] @ ''leri Ba'' @ [CHR 0xC5, CHR 0x9F] @ ''kanl'' @ [CHR 0xC4, CHR 0xB1, CHR 0xC4, CHR 0x9F, CHR 0xC4, CHR 0xB1] @ '', Turkey'')),
       (''name_tr'', VStr (''Diyanet '' @ [CHR 0xC4, CHR 0xB0, CHR 0xC5, CHR 0x9F] @ ''leri Ba'' @ [CHR 0xC5, CHR 0x9F] @ ''kanl'' @ [CHR 0xC4, CHR 0xB1, CHR 0xC4, CHR 0x9F, CHR 0xC4, CHR 0xB1]))],
      [(''id'', VInt 14),
       (''name'', VStr ''Spiritual Administration of Muslims of Russia''),
       (''name_tr'', VStr ''Rusya'')]]"

definition get_calculation_methods :: "doc list response" where
  "get_calculation_methods = \<lparr> success = True, data = methods \<rparr>"

section \<open>Query parameters and the endpoints that take coordinates\<close>

subsection \<open>Declared query parameters\<close>

text \<open>
  A request's query is the list of its name and value pairs, the values as the text the
  client sent; a name given twice counts with its last value. The handlers declare
  \<open>latitude: float = Query(...)\<close>, \<open>month: int = Query(...)\<close>, \<open>method: int = Query(13)\<close>,
  \<open>date: Optional[str] = Query(None)\<close>: the framework reads each declared parameter
  before the handler runs, and answers status 422 with the list of the errors when a
  required one is missing or a value does not parse. How a text parses as a number is
  the framework's: \<open>parse_float\<close> and \<open>parse_int\<close> are taken as given. No declaration of
  the source carries a bound (\<open>ge\<close>, \<open>le\<close>), so none is checked.

  A text that parses as a float need not be a number: \<open>inf\<close>, \<open>-inf\<close>, \<open>1e400\<close> and
  \<open>nan\<close> parse too. A parsed float is a finite value, read as a real, or one of the
  three others.
\<close>

datatype pyfloat = Finite real | PosInf | NegInf | NaN

type_synonym query = "(string \<times> string) list"

record framework =
  parse_float :: "string \<Rightarrow> pyfloat option"
  parse_int :: "string \<Rightarrow> int option"

datatype validation_error = Missing string | NotFloat string | NotInt string

definition lookup :: "query \<Rightarrow> string \<Rightarrow> string option" where
  "lookup q name = map_of (rev q) name"

definition required_float :: "framework \<Rightarrow> query \<Rightarrow> string \<Rightarrow> validation_error + pyfloat" where
  "required_float fw q name =
     (case lookup q name of
        None \<Rightarrow> Inl (Missing name)
      | Some raw \<Rightarrow>
          (case parse_float fw raw of None \<Rightarrow> Inl (NotFloat name) | Some v \<Rightarrow> Inr v))"



definition errors_of :: "validation_error + 'a \<Rightarrow> validation_error list" where
  "errors_of r = (case r of Inl e \<Rightarrow> [e] | Inr v \<Rightarrow> [])"

text \<open>
  What leaves an endpoint instead of a response body: the framework's status 422 with its
  errors, the \<open>HTTPException\<close> a handler raised, or status 500 for an exception that
  nothing caught (one that left the handler, or one the framework met when it encoded the
  returned body).
\<close>

datatype http_error =
    RequestValidationError "validation_error list"
  | Raised http_exception
  | InternalServerError py_exception

subsection \<open>The timing provider\<close>

text \<open>
  A parsed JSON body (a \<open>JObj\<close> lists the entries of the parsed dictionary, each key
  once), and one \<open>GET\<close> to the provider as the handler issues it. The
  provider's answer to a call is taken as given: the parsed body, or the exception of a
  network failure, a timeout, a status that \<open>raise_for_status\<close> rejects or a body that is
  no JSON. \<open>now_str\<close> is \<open>datetime.now().strftime("%d-%m-%Y")\<close>; \<open>repr_json\<close> is what an
  f-string prints for a value that is not a string.
\<close>

datatype json =
    JNull
  | JBool bool
  | JInt int
  | JFloat pyfloat
  | JStr string
  | JArr "json list"
  | JObj "(string \<times> json) list"

record upstream_call =
  url :: string
  params :: "(string \<times> json) list"
  timeout :: real



text \<open>
  The framework encodes the body a handler returned as JSON after the handler has
  returned, outside any \<open>try\<close> of the handler. A float that is not finite has no
  encoding: the encoder raises and the answer is status 500. An exception that left the
  handler uncaught is answered with status 500 as well.
\<close>

fun encodable :: "json \<Rightarrow> bool" where
  "encodable (JFloat f) = (case f of Finite r \<Rightarrow> True | _ \<Rightarrow> False)"
| "encodable (JArr xs) = list_all encodable xs"
| "encodable (JObj kvs) = list_all encodable (map snd kvs)"
| "encodable v = True"

definition respond :: "py_exception + json response \<Rightarrow> http_error + json response" where
  "respond r =
     (case r of
        Inl ex \<Rightarrow> Inl (InternalServerError ex)
      | Inr body \<Rightarrow> if encodable (data body) then Inr body else Inl (InternalServerError ValueError))"










subsection \<open>Daily timings (server.py, fetch_prayer_times_aladhan, get_prayer_times)\<close>





subsection \<open>Monthly timings (server.py, get_monthly_prayer_times)\<close>





subsection \<open>Direction (server.py, get_qibla_direction)\<close>

text \<open>
  \<open>calculate_qibla_direction\<close> on the floats a request can carry. On two finite values it
  is the function above. Otherwise, in the order of the source: \<open>math.sin(delta_lng)\<close>
  raises \<open>ValueError\<close> when the longitude is infinite; \<open>math.cos(lat_rad)\<close> raises it
  when the latitude is infinite; and with \<open>nan\<close> and no infinity every step gives \<open>nan\<close>,
  \<open>nan < 0\<close> is false and \<open>round(nan, 2)\<close> is \<open>nan\<close>.
\<close>

fun calculate_qibla_direction_py :: "pyfloat \<Rightarrow> pyfloat \<Rightarrow> py_exception + pyfloat" where
  "calculate_qibla_direction_py (Finite lat) (Finite lng) =
     Inr (Finite (calculate_qibla_direction lat lng))"
| "calculate_qibla_direction_py lat PosInf = Inl ValueError"
| "calculate_qibla_direction_py lat NegInf = Inl ValueError"
| "calculate_qibla_direction_py PosInf lng = Inl ValueError"
| "calculate_qibla_direction_py NegInf lng = Inl ValueError"
| "calculate_qibla_direction_py lat lng = Inr NaN"

text \<open>The handler has no \<open>try\<close>: the exception of the calculation leaves it.\<close>

definition get_qibla_direction :: "pyfloat \<Rightarrow> pyfloat \<Rightarrow> py_exception + json response" where
  "get_qibla_direction lat lng =
     (case calculate_qibla_direction_py lat lng of
        Inl ex \<Rightarrow> Inl ex
      | Inr direction \<Rightarrow>
          Inr \<lparr> success = True,
                data = JObj
                  [(''direction'', JFloat direction),
                   (''latitude'', JFloat lat),
                   (''longitude'', JFloat lng),
                   (''kaaba_latitude'', JFloat (Finite KAABA_LAT)),
                   (''kaaba_longitude'', JFloat (Finite KAABA_LNG))] \<rparr>)"

definition qibla_endpoint ::
  "framework \<Rightarrow> query \<Rightarrow> upstream_call list \<times> (http_error + json response)" where
  "qibla_endpoint fw q =
     (let latitude = required_float fw q ''latitude'';
          longitude = required_float fw q ''longitude''
      in case (latitude, longitude) of
           (Inr lat, Inr lng) \<Rightarrow> ([], respond (get_qibla_direction lat lng))
         | _ \<Rightarrow> ([], Inl (RequestValidationError (errors_of latitude @ errors_of longitude))))"

subsection \<open>The settings endpoints as the client sees them\<close>

text \<open>
  The bodies of the settings handlers are encoded in the same way. A stored document's
  values have an encoding (a \<open>datetime\<close> is written as text), except the driver's
  \<open>ObjectId\<close>: a body that still carries one makes the encoder raise. \<open>get_settings\<close>
  removes \<open>_id\<close> before it returns; the update branch of \<open>create_or_update_settings\<close>
  returns the document as \<open>find_one\<close> read it.
\<close>

definition encodable_val :: "val \<Rightarrow> bool" where
  "encodable_val v = (case v of VObjectId oid \<Rightarrow> False | _ \<Rightarrow> True)"

definition encodable_doc :: "doc option \<Rightarrow> bool" where
  "encodable_doc d = (case d of None \<Rightarrow> True | Some kvs \<Rightarrow> list_all encodable_val (map snd kvs))"

definition post_settings_endpoint ::
  "env \<Rightarrow> doc list \<Rightarrow> string \<Rightarrow> UserSettingsUpdate
     \<Rightarrow> doc list \<times> (http_error + doc option response)" where
  "post_settings_endpoint e coll dev settings =
     (let (coll', r) = create_or_update_settings e coll dev settings
      in (coll',
          case r of
            Inl ex \<Rightarrow> Inl (Raised ex)
          | Inr body \<Rightarrow>
              if encodable_doc (data body) then Inr body
              else Inl (InternalServerError ValueError)))"

definition get_settings_endpoint ::
  "env \<Rightarrow> doc list \<Rightarrow> string \<Rightarrow> http_error + doc option response" where
  "get_settings_endpoint e coll dev =
     (case get_settings e coll dev of
        Inl ex \<Rightarrow> Inl (InternalServerError ex)
      | Inr body \<Rightarrow>
          if encodable_doc (data body) then Inr body
          else Inl (InternalServerError ValueError))"

text \<open>
  A request is rejected when it gets the framework's client error and no call to the
  provider was made. A required parameter is unusable when it is missing or its text
  does not parse.
\<close>

definition rejected :: "upstream_call list \<times> (http_error + 'a) \<Rightarrow> bool" where
  "rejected r =
     (fst r = [] \<and> (case snd r of Inl (RequestValidationError errs) \<Rightarrow> errs \<noteq> [] | _ \<Rightarrow> False))"



definition example_framework :: framework where
  "example_framework =
     \<lparr> parse_float = (\<lambda>raw. if raw = ''100'' then Some (Finite 100)
                             else if raw = ''0'' then Some (Finite 0)
                             else if raw = ''inf'' then Some PosInf
                             else if raw = ''nan'' then Some NaN else None),
       parse_int = (\<lambda>raw. if raw = ''13'' then Some 13 else None) \<rparr>"


subsection \<open>A sample environment, document and patch\<close>

definition example_env :: env where
  "example_env = \<lparr> uuid4 = ''6f1c'', utcnow = (\<lambda>i. 1000 + i), object_id = 2, db_fault = (\<lambda>i. None) \<rparr>"

definition example_doc :: doc where
  "example_doc =
     [(''_id'', VObjectId 1), (''id'', VStr ''a9e0''), (''device_id'', VStr ''phone''),
      (''language'', VStr ''tr''), (''theme'', VStr ''dark''),
      (''notification_enabled'', VBool True), (''notification_sound'', VStr ''default''),
      (''calculation_method'', VInt 13), (''latitude'', VNone), (''longitude'', VNone),
      (''city'', VNone), (''country'', VNone),
      (''created_at'', VDatetime 500), (''updated_at'', VDatetime 500)]"

definition example_patch :: UserSettingsUpdate where
  "example_patch =
     \<lparr> UserSettingsUpdate.language = Some ''en'',
       UserSettingsUpdate.theme = None,
       UserSettingsUpdate.notification_enabled = None,
       UserSettingsUpdate.notification_sound = None,
       UserSettingsUpdate.calculation_method = Some 3,
       UserSettingsUpdate.latitude = None,
       UserSettingsUpdate.longitude = None,
       UserSettingsUpdate.city = Some ''Konya'',
       UserSettingsUpdate.country = None \<rparr>"

definition empty_patch :: UserSettingsUpdate where
  "empty_patch =
     \<lparr> UserSettingsUpdate.language = None,
       UserSettingsUpdate.theme = None,
       UserSettingsUpdate.notification_enabled = None,
       UserSettingsUpdate.notification_sound = None,
       UserSettingsUpdate.calculation_method = None,
       UserSettingsUpdate.latitude = None,
       UserSettingsUpdate.longitude = None,
       UserSettingsUpdate.city = None,
       UserSettingsUpdate.country = None \<rparr>"

definition later_env :: env where
  "later_env = \<lparr> uuid4 = ''77b2'', utcnow = (\<lambda>i. 2000 + i), object_id = 3, db_fault = (\<lambda>i. None) \<rparr>"

text \<open>
  The document of the device \<open>phone\<close> as a first upsert with the empty patch stores it,
  and as a second upsert with the sample patch leaves it.
\<close>

definition stored_after_create :: doc where
  "stored_after_create =
     [(''_id'', VObjectId 2), (''id'', VStr ''6f1c''), (''device_id'', VStr ''phone''),
      (''language'', VStr ''tr''), (''theme'', VStr ''dark''),
      (''notification_enabled'', VBool True), (''notification_sound'', VStr ''default''),
      (''calculation_method'', VInt 13), (''latitude'', VNone), (''longitude'', VNone),
      (''city'', VNone), (''country'', VNone),
      (''created_at'', VDatetime 1000), (''updated_at'', VDatetime 1001)]"

definition stored_after_update :: doc where
  "stored_after_update =
     [(''_id'', VObjectId 2), (''id'', VStr ''6f1c''), (''device_id'', VStr ''phone''),
      (''language'', VStr ''en''), (''theme'', VStr ''dark''),
      (''notification_enabled'', VBool True), (''notification_sound'', VStr ''default''),
      (''calculation_method'', VInt 3), (''latitude'', VNone), (''longitude'', VNone),
      (''city'', VStr ''Konya''), (''country'', VNone),
      (''created_at'', VDatetime 1000), (''updated_at'', VDatetime 2000)]"

section \<open>Properties of the bearing calculator\<close>

lemma arctan_le_self_nonneg: "0 \<le> z \<Longrightarrow> arctan z \<le> z"
proof -
  assume z: "0 \<le> z"
  have d: "\<exists>y. DERIV (\<lambda>u. u - arctan u) t :> y \<and> 0 \<le> y" for t :: real
  proof -
    have "DERIV (\<lambda>u. u - arctan u) t :> 1 - inverse (1 + t\<^sup>2)"
      by (auto intro!: derivative_eq_intros)
    moreover have "0 \<le> 1 - inverse (1 + t\<^sup>2)"
      by (simp add: inverse_le_1_iff add_nonneg_pos)
    ultimately show ?thesis by blast
  qed
  have "(\<lambda>u. u - arctan u) 0 \<le> (\<lambda>u. u - arctan u) z"
    by (rule DERIV_nonneg_imp_nondecreasing [OF z]) (rule d)
  then show ?thesis by simp
qed

lemma tan_ge_self: assumes "0 \<le> k" "k < pi / 2" shows "k \<le> tan k"
proof -
  have "arctan k \<le> k" using assms arctan_le_self_nonneg by simp
  moreover have "- (pi / 2) < arctan k" by (rule arctan_lbound)
  ultimately have "tan (arctan k) \<le> tan k"
    using assms by (intro tan_mono_le) auto
  then show ?thesis by (simp add: tan_arctan)
qed

lemma round_half_even_bounds: "\<lfloor>r\<rfloor> \<le> round_half_even r \<and> round_half_even r \<le> \<lfloor>r\<rfloor> + 1"
  by (simp add: round_half_even_def Let_def)

lemma py_round_near_360:
  assumes "359.995 < v" "v < 360"
  shows "py_round v 2 = 360"
proof -
  have f: "\<lfloor>v * 100\<rfloor> = 35999"
    using assms by (intro floor_unique) simp_all
  have "1 / 2 < v * 100 - of_int \<lfloor>v * 100\<rfloor>"
    using assms by (simp add: f)
  then have "round_half_even (v * 100) = 36000"
    by (simp add: round_half_even_def Let_def f)
  then show ?thesis by (simp add: py_round_def)
qed

lemma atan2_range: "- pi < atan2 a b \<and> atan2 a b \<le> pi"
proof -
  have l: "- (pi / 2) < arctan (a / b)" by (rule arctan_lbound)
  have u: "arctan (a / b) < pi / 2" by (rule arctan_ubound)
  have neg: "b < 0 \<Longrightarrow> 0 \<le> a \<Longrightarrow> arctan (a / b) \<le> 0"
    by (simp add: divide_nonneg_neg)
  have pos: "b < 0 \<Longrightarrow> a < 0 \<Longrightarrow> 0 < arctan (a / b)"
    by (simp add: divide_neg_neg)
  show ?thesis
    using l u neg pos pi_gt_zero by (auto simp: atan2_def)
qed

text \<open>
  Whatever the coordinates, the result lies between 0 and 360, both ends included: the
  angle is brought into \<open>[0, 360)\<close> first and rounded to two decimals afterwards.
\<close>

lemma calculate_qibla_direction_closed_range:
  "0 \<le> calculate_qibla_direction lat lng \<and> calculate_qibla_direction lat lng \<le> 360"
proof -
  define a where "a = atan2 (sin (radians KAABA_LNG - radians lng))
     (cos (radians lat) * tan (radians KAABA_LAT)
        - sin (radians lat) * cos (radians KAABA_LNG - radians lng))"
  define q where "q = degrees a"
  define n where "n = (if q < 0 then q + 360 else q)"
  have r: "calculate_qibla_direction lat lng = py_round n 2"
    by (simp add: calculate_qibla_direction_def Let_def n_def q_def a_def)
  have "- pi < a" "a \<le> pi" using atan2_range by (simp_all add: a_def)
  then have "- 180 < q" "q \<le> 180"
    using pi_gt_zero by (simp_all add: q_def degrees_def field_simps)
  then have n: "0 \<le> n" "n < 360" by (simp_all add: n_def)
  have lo: "0 \<le> \<lfloor>n * 100\<rfloor>" using n by simp
  have hi: "\<lfloor>n * 100\<rfloor> + 1 \<le> 36000"
    using n by (simp add: floor_less_iff)
  have "0 \<le> round_half_even (n * 100)" "round_half_even (n * 100) \<le> 36000"
    using lo hi round_half_even_bounds [of "n * 100"] by linarith+
  then show ?thesis
    by (simp add: r py_round_def field_simps)
qed

lemma qibla_just_east:
  assumes d: "radians KAABA_LNG - radians lng = - e" and e_pos: "0 < e" and e_le: "e \<le> pi / 1800000"
  shows "calculate_qibla_direction 0 lng = 360"
proof -
  define k where "k = radians KAABA_LAT"
  have pi2: "2 \<le> pi" by (rule pi_ge_two)
  have k_pos: "0 < k" and k_lt: "k < pi / 2"
    using pi_gt_zero by (simp_all add: k_def radians_def KAABA_LAT_def)
  have t: "k \<le> tan k" using k_pos k_lt by (intro tan_ge_self) simp_all
  have tpos: "0 < tan k" using t k_pos by linarith
  have e_lt: "e < pi" using e_le e_pos pi_gt_zero by linarith
  have s_pos: "0 < sin e" using e_pos e_lt by (rule sin_gt_zero)
  have s_le: "sin e \<le> e" using e_pos by (intro sin_x_le_x) simp
  define w where "w = sin e / tan k"
  have w_pos: "0 < w" using s_pos tpos by (simp add: w_def)
  have "w \<le> e / k"
    unfolding w_def using s_le t k_pos tpos e_pos by (intro frac_le) simp_all
  also have "\<dots> \<le> (pi / 1800000) / k"
    by (rule divide_right_mono [OF e_le]) (use k_pos in simp)
  also have "\<dots> = 1 / 214225"
    using pi_gt_zero by (simp add: k_def radians_def KAABA_LAT_def)
  finally have w_le: "w \<le> 1 / 214225" .
  have a_pos: "0 < arctan w" using w_pos by simp
  have a_le: "arctan w \<le> 1 / 214225"
    using arctan_le_self_nonneg [of w] w_pos w_le by linarith
  have at: "atan2 (- sin e) (tan k) = - arctan w"
    using tpos by (simp add: atan2_def w_def arctan_minus)
  define q where "q = degrees (- arctan w)"
  have q_neg: "q < 0" using a_pos pi_gt_zero by (simp add: q_def degrees_def field_simps)
  have "arctan w * 180 \<le> 180 / 214225" using a_le by simp
  also have "\<dots> < 0.005 * pi" using pi2 by simp
  finally have "arctan w * 180 / pi < 0.005"
    using pi_gt_zero by (simp add: field_simps)
  then have q_gt: "- 0.005 < q" by (simp add: q_def degrees_def)
  have "calculate_qibla_direction 0 lng = py_round (q + 360) 2"
    using q_neg by (simp add: calculate_qibla_direction_def Let_def d at q_def k_def [symmetric]
        radians_def [of 0])
  also have "\<dots> = 360" using q_neg q_gt by (intro py_round_near_360) simp_all
  finally show ?thesis .
qed

text \<open>
  C1. The claim: for latitude in \<open>[-90, 90]\<close> and longitude in \<open>[-180, 180]\<close> the result
  is in the half-open range \<open>[0, 360)\<close>. On the equator, one ten-thousandth of a degree
  east of the reference meridian, the angle before rounding is a little under 360 and
  the rounding to two decimals returns 360 itself.
\<close>

theorem calculate_qibla_direction_returns_360:
  "calculate_qibla_direction 0 39.8263 = 360"
  using pi_gt_zero
  by (intro qibla_just_east [where e = "pi / 1800000"]) (simp_all add: radians_def KAABA_LNG_def)

text \<open>
  C2. \<open>calculate_qibla_direction\<close> computes the forward azimuth of the specification:
  the difference of the longitudes in radians, \<open>x = sin deltaLng\<close>,
  \<open>y = cos originLat * tan referenceLat - sin originLat * cos deltaLng\<close>, the angle
  \<open>atan2 x y\<close> in degrees, 360 added when it is negative, rounded to two decimals, with the
  reference point at latitude 21.4225 and longitude 39.8262.
\<close>

theorem calculate_qibla_direction_formula:
  "calculate_qibla_direction lat lng = computeBearing lat lng"
  by (simp add: calculate_qibla_direction_def computeBearing_def radians_def degrees_def
      py_round_def KAABA_LAT_def KAABA_LNG_def Let_def)

text \<open>
  C3. At the reference point itself (latitude 21.4225, longitude 39.8262) both arguments
  of \<open>atan2\<close> vanish and the result is 0.
\<close>

theorem calculate_qibla_direction_at_reference:
  "calculate_qibla_direction 21.4225 39.8262 = 0"
proof -
  define k where "k = radians 21.4225"
  have "0 < cos k"
    unfolding k_def using pi_gt_zero by (intro cos_gt_zero_pi) (simp_all add: radians_def)
  then have y: "cos k * tan k - sin k = 0"
    by (simp add: tan_def)
  show ?thesis
    using y by (simp add: calculate_qibla_direction_def Let_def atan2_def degrees_def
        py_round_def round_half_even_def KAABA_LAT_def KAABA_LNG_def k_def)
qed

section \<open>Properties of the settings upsert\<close>

lemma map_of_set_fields_other:
  "k \<notin> fst ` set us \<Longrightarrow> map_of (set_fields us d) k = map_of d k"
  by (induction us d rule: set_fields.induct) (auto simp: update_conv')

lemma map_of_set_fields:
  "distinct (map fst us) \<Longrightarrow>
   map_of (set_fields us d) k = (case map_of us k of None \<Rightarrow> map_of d k | Some v \<Rightarrow> Some v)"
proof (induction us d rule: set_fields.induct)
  case (1 d)
  then show ?case by simp
next
  case (2 k' v us d)
  show ?case
  proof (cases "k = k'")
    case True
    with 2 have "k \<notin> fst ` set us" by auto
    then show ?thesis
      using True by (simp add: map_of_set_fields_other update_conv')
  next
    case False
    with 2 show ?thesis by (simp add: update_conv' split: option.split)
  qed
qed

lemma map_of_filter_val:
  "distinct (map fst xs) \<Longrightarrow>
   map_of (filter (\<lambda>(k, v). P v) xs) k =
     (case map_of xs k of None \<Rightarrow> None | Some v \<Rightarrow> if P v then Some v else None)"
proof (induction xs)
  case Nil
  then show ?case by simp
next
  case (Cons x xs)
  obtain k' v where x: "x = (k', v)" by (cases x)
  from Cons.prems x have "map_of xs k' = None"
    by (simp add: map_of_eq_None_iff)
  with Cons x show ?case by (auto split: option.splits)
qed

lemma distinct_UserSettingsUpdate_dict: "distinct (map fst (UserSettingsUpdate_dict s))"
  by (simp add: UserSettingsUpdate_dict_def)

lemma keys_UserSettingsUpdate_dict:
  "map fst (UserSettingsUpdate_dict s) =
     [''language'', ''theme'', ''notification_enabled'', ''notification_sound'',
      ''calculation_method'', ''latitude'', ''longitude'', ''city'', ''country'']"
  by (simp add: UserSettingsUpdate_dict_def)

lemma distinct_update_data_of: "distinct (map fst (update_data_of e s))"
  by (simp add: update_data_of_def distinct_update distinct_map_filter distinct_UserSettingsUpdate_dict)

lemma map_of_update_data_of:
  "map_of (update_data_of e s) k =
     (if k = ''updated_at'' then Some (VDatetime (utcnow e 0))
      else if patched s k then map_of (UserSettingsUpdate_dict s) k else None)"
  by (simp add: update_data_of_def update_conv' patched_def
      map_of_filter_val [OF distinct_UserSettingsUpdate_dict, where P = "\<lambda>v. v \<noteq> VNone"]
      split: option.splits)


lemma patched_keys:
  "patched s k \<Longrightarrow> k \<in> set (map fst (UserSettingsUpdate_dict s))"
  by (auto simp: patched_def split: option.splits dest: map_of_SomeD intro: rev_image_eqI)

lemma update_data_of_keeps:
  assumes "k \<noteq> ''updated_at''" "\<not> patched s k"
  shows "k \<notin> fst ` set (update_data_of e s)"
proof -
  have "map_of (update_data_of e s) k = None"
    using assms by (simp add: map_of_update_data_of)
  then show ?thesis by (simp add: map_of_eq_None_iff)
qed

lemma not_patched_device_id: "\<not> patched s ''device_id''"
  and not_patched_id: "\<not> patched s ''id''"
  and not_patched_created_at: "\<not> patched s ''created_at''"
  and not_patched_oid: "\<not> patched s ''_id''"
  and not_patched_updated_at: "\<not> patched s ''updated_at''"
  by (simp_all add: patched_def UserSettingsUpdate_dict_def)

lemma matches_set_fields:
  "matches dev' (set_fields (update_data_of e s) d) = matches dev' d"
  by (simp add: matches_def map_of_set_fields_other update_data_of_keeps not_patched_device_id)

lemma matches_nonempty: "matches dev d \<Longrightarrow> d \<noteq> []"
  by (auto simp: matches_def)

lemma find_one_matches: "find_one coll dev = Some d \<Longrightarrow> matches dev d"
  by (auto simp: find_one_def find_Some_iff)

lemma truthy_find_one: "truthy (find_one coll dev) = (find_one coll dev \<noteq> None)"
  by (auto simp: truthy_def split: option.splits dest: find_one_matches matches_nonempty)

lemma matches_unique: "matches dev d \<Longrightarrow> matches dev' d \<Longrightarrow> dev' = dev"
  by (simp add: matches_def)

lemma find_one_update_one:
  assumes "find_one coll dev = Some old"
  shows "find_one (update_one coll dev (update_data_of e s)) dev
           = Some (set_fields (update_data_of e s) old)"
  using assms
  by (induction coll) (auto simp: find_one_def matches_set_fields)

lemma find_one_update_one_other:
  assumes "dev' \<noteq> dev"
  shows "find_one (update_one coll dev' (update_data_of e s)) dev = find_one coll dev"
  using assms
  by (induction coll) (auto simp: find_one_def matches_set_fields dest: matches_unique)

lemma count_device_update_one:
  "count_device (update_one coll dev' (update_data_of e s)) dev = count_device coll dev"
  by (induction coll) (auto simp: count_device_def matches_set_fields)

lemma matches_new_doc:
  "matches dev' ((''_id'', oid) # UserSettings_dict (UserSettings_init e dev s)) = (dev' = dev)"
  by (auto simp: matches_def UserSettings_dict_def UserSettings_init_def)

lemma find_one_None_count: "find_one coll dev = None \<Longrightarrow> count_device coll dev = 0"
  by (auto simp: find_one_def count_device_def find_None_iff)

lemma find_one_insert_one_found:
  "find_one coll dev = Some old \<Longrightarrow> find_one (insert_one e coll d) dev = Some old"
  by (induction coll) (auto simp: find_one_def insert_one_def)

lemma find_one_insert_one_new:
  "find_one coll dev = None \<Longrightarrow>
   find_one (insert_one e coll (UserSettings_dict (UserSettings_init e dev' s))) dev =
     (if dev = dev' then Some ((''_id'', VObjectId (object_id e)) # UserSettings_dict (UserSettings_init e dev' s))
      else None)"
  by (induction coll) (auto simp: find_one_def insert_one_def matches_new_doc)

lemma count_device_insert_one:
  "count_device (insert_one e coll (UserSettings_dict (UserSettings_init e dev' s))) dev =
     count_device coll dev + (if dev = dev' then 1 else 0)"
  by (simp add: count_device_def insert_one_def matches_new_doc)

text \<open>The three ways a call can leave the collection.\<close>

lemma upsert_store_cases:
  "fst (create_or_update_settings e coll dev s) = coll
   \<or> (find_one coll dev \<noteq> None
       \<and> fst (create_or_update_settings e coll dev s) = update_one coll dev (update_data_of e s))
   \<or> (find_one coll dev = None
       \<and> fst (create_or_update_settings e coll dev s)
           = insert_one e coll (UserSettings_dict (UserSettings_init e dev s)))"
  by (simp add: create_or_update_settings_def truthy_find_one Let_def split: option.splits)

lemma upsert_found:
  assumes "no_fault e" "find_one coll dev = Some old"
  shows "create_or_update_settings e coll dev s =
           (update_one coll dev (update_data_of e s),
            Inr \<lparr> success = True, data = Some (set_fields (update_data_of e s) old) \<rparr>)"
proof -
  have "old \<noteq> []"
    using assms(2) by (blast dest: find_one_matches matches_nonempty)
  then show ?thesis
    using assms
    by (simp add: create_or_update_settings_def Let_def no_fault_def find_one_update_one
        truthy_def)
qed

lemma upsert_not_found:
  assumes "db_fault e 0 = None" "db_fault e 1 = None" "find_one coll dev = None"
  shows "create_or_update_settings e coll dev s =
           (insert_one e coll (UserSettings_dict (UserSettings_init e dev s)),
            Inr \<lparr> success = True, data = Some (UserSettings_dict (UserSettings_init e dev s)) \<rparr>)"
  using assms
  by (simp add: create_or_update_settings_def truthy_def Let_def)

lemma map_of_merged:
  "map_of (set_fields (update_data_of e s) old) k =
     (if k = ''updated_at'' then Some (VDatetime (utcnow e 0))
      else if patched s k then map_of (UserSettingsUpdate_dict s) k
      else map_of old k)"
  by (auto simp: map_of_set_fields [OF distinct_update_data_of] map_of_update_data_of
      patched_def split: option.splits)


lemma upsert_step_keeps:
  assumes "find_one coll dev = Some old"
  shows "\<exists>new. find_one (fst (create_or_update_settings e coll dev' s)) dev = Some new
           \<and> (\<forall>k. k \<noteq> ''updated_at'' \<longrightarrow> (dev' = dev \<longrightarrow> \<not> patched s k) \<longrightarrow>
                  map_of new k = map_of old k)"
proof -
  consider
      (same) "fst (create_or_update_settings e coll dev' s) = coll"
    | (upd) "find_one coll dev' \<noteq> None"
        "fst (create_or_update_settings e coll dev' s) = update_one coll dev' (update_data_of e s)"
    | (ins) "find_one coll dev' = None"
        "fst (create_or_update_settings e coll dev' s)
           = insert_one e coll (UserSettings_dict (UserSettings_init e dev' s))"
    using upsert_store_cases [of e coll dev' s] by auto
  then show ?thesis
  proof cases
    case same
    then show ?thesis using assms by simp
  next
    case upd
    show ?thesis
    proof (cases "dev' = dev")
      case True
      then show ?thesis
        using upd(2) assms by (simp add: find_one_update_one map_of_merged)
    next
      case False
      then show ?thesis
        using upd(2) assms by (simp add: find_one_update_one_other)
    qed
  next
    case ins
    then show ?thesis
      using assms by (simp add: find_one_insert_one_found)
  qed
qed

lemma run_upserts_keeps:
  assumes "find_one coll dev = Some old"
    and "k \<noteq> ''updated_at''" and "\<And>s. \<not> patched s k"
  shows "\<exists>new. find_one (run_upserts coll reqs) dev = Some new \<and> map_of new k = map_of old k"
  using assms(1)
proof (induction reqs arbitrary: coll old)
  case Nil
  then show ?case by simp
next
  case (Cons r reqs)
  obtain e dev' s where r: "r = (e, dev', s)" by (cases r)
  from upsert_step_keeps [OF Cons.prems, of e dev' s] assms(2,3)
  obtain mid where mid: "find_one (fst (create_or_update_settings e coll dev' s)) dev = Some mid"
    "map_of mid k = map_of old k" by blast
  from Cons.IH [OF mid(1)] mid(2) show ?case by (simp add: r)
qed

lemma upsert_step_count:
  "count_device (fst (create_or_update_settings e coll dev' s)) dev \<le> max 1 (count_device coll dev)"
  using upsert_store_cases [of e coll dev' s]
  by (auto simp: count_device_update_one count_device_insert_one find_one_None_count)

lemma run_upserts_count:
  "count_device (run_upserts coll reqs) dev \<le> max 1 (count_device coll dev)"
proof (induction reqs arbitrary: coll)
  case Nil
  then show ?case by simp
next
  case (Cons r reqs)
  obtain e dev' s where r: "r = (e, dev', s)" by (cases r)
  have "count_device (run_upserts coll (r # reqs)) dev
          \<le> max 1 (count_device (fst (create_or_update_settings e coll dev' s)) dev)"
    using Cons.IH by (simp add: r)
  also have "\<dots> \<le> max 1 (count_device coll dev)"
    using upsert_step_count [of e coll dev' s dev] by simp
  finally show ?case .
qed

lemma upsert_step_absent:
  assumes "find_one coll dev = None" "dev' \<noteq> dev"
  shows "find_one (fst (create_or_update_settings e coll dev' s)) dev = None"
  using upsert_store_cases [of e coll dev' s] assms
  by (auto simp: find_one_update_one_other find_one_insert_one_new)

lemma run_upserts_absent:
  assumes "find_one coll dev = None" "dev \<notin> set (map (\<lambda>r. fst (snd r)) reqs)"
  shows "find_one (run_upserts coll reqs) dev = None"
  using assms
proof (induction reqs arbitrary: coll)
  case Nil
  then show ?case by simp
next
  case (Cons r reqs)
  obtain e dev' s where r: "r = (e, dev', s)" by (cases r)
  with Cons.prems have "dev' \<noteq> dev" by auto
  from upsert_step_absent [OF Cons.prems(1) this] Cons.IH Cons.prems(2)
  show ?case by (simp add: r)
qed


lemma example_no_fault: "no_fault example_env"
  by (simp add: no_fault_def example_env_def)

lemma example_find_one: "find_one [example_doc] ''phone'' = Some example_doc"
  by (simp add: find_one_def matches_def example_doc_def)

lemma later_no_fault: "no_fault later_env"
  by (simp add: no_fault_def later_env_def)

text \<open>
  What the handler itself computes on a found record: the merged document is stored, and
  the value the Python function returns is that document as \<open>find_one\<close> reads it back.
\<close>

lemma upsert_found_handler_merges:
  assumes "no_fault e" and "find_one coll dev = Some existing"
  shows "\<exists>coll' updated.
           create_or_update_settings e coll dev settings
             = (coll', Inr \<lparr> success = True, data = Some updated \<rparr>)
         \<and> find_one coll' dev = Some updated
         \<and> (\<forall>k. map_of updated k =
                (if k = ''updated_at'' then Some (VDatetime (utcnow e 0))
                 else if patched settings k then map_of (UserSettingsUpdate_dict settings) k
                 else map_of existing k))"
  using upsert_found [OF assms, of settings] find_one_update_one [OF assms(2), of e settings]
  by (simp add: map_of_merged)

text \<open>
  That returned document still carries the driver's \<open>ObjectId\<close> under \<open>_id\<close>, so the
  body cannot be encoded: whenever the store answers and the found record has its
  \<open>_id\<close>, the update is persisted and the client gets status 500.
\<close>

lemma upsert_found_answers_500:
  assumes "no_fault e" and "find_one coll dev = Some existing"
    and "map_of existing ''_id'' = Some (VObjectId oid)"
  shows "post_settings_endpoint e coll dev settings
           = (update_one coll dev (update_data_of e settings),
              Inl (InternalServerError ValueError))"
proof -
  define merged where "merged = set_fields (update_data_of e settings) existing"
  have "map_of merged ''_id'' = Some (VObjectId oid)"
    using assms(3) by (simp add: merged_def map_of_merged not_patched_oid)
  then have "(''_id'', VObjectId oid) \<in> set merged"
    by (rule map_of_SomeD)
  then have "VObjectId oid \<in> set (map snd merged)"
    by force
  moreover have "\<not> encodable_val (VObjectId oid)"
    by (simp add: encodable_val_def)
  ultimately have "\<not> list_all encodable_val (map snd merged)"
    unfolding list_all_iff by blast
  then have "\<not> encodable_doc (Some merged)"
    by (simp add: encodable_doc_def)
  then show ?thesis
    using upsert_found [OF assms(1,2), of settings]
    by (simp add: post_settings_endpoint_def merged_def)
qed

lemma create_then_stored:
  "create_or_update_settings example_env [] ''phone'' empty_patch
     = ([stored_after_create],
        Inr \<lparr> success = True, data = Some (AList.delete ''_id'' stored_after_create) \<rparr>)"
  by (simp add: create_or_update_settings_def example_env_def find_one_def truthy_def
      UserSettings_init_def UserSettings_dict_def kwarg_def opt_def empty_patch_def
      insert_one_def stored_after_create_def AList.delete_eq)

lemma update_data_example:
  "update_data_of later_env example_patch =
     [(''language'', VStr ''en''), (''calculation_method'', VInt 3), (''city'', VStr ''Konya''),
      (''updated_at'', VDatetime 2000)]"
  by (simp add: update_data_of_def UserSettingsUpdate_dict_def example_patch_def opt_def
      later_env_def)

lemma update_handler_value:
  "create_or_update_settings later_env [stored_after_create] ''phone'' example_patch
     = ([stored_after_update], Inr \<lparr> success = True, data = Some stored_after_update \<rparr>)"
proof -
  have f: "find_one [stored_after_create] ''phone'' = Some stored_after_create"
    by (simp add: find_one_def matches_def stored_after_create_def)
  have s: "set_fields (update_data_of later_env example_patch) stored_after_create
             = stored_after_update"
    by (simp add: update_data_example stored_after_create_def stored_after_update_def)
  have m: "matches ''phone'' stored_after_create"
    by (simp add: matches_def stored_after_create_def)
  show ?thesis
    using upsert_found [OF later_no_fault f, of example_patch] m by (simp add: s)
qed

text \<open>
  C4. The claim: on a found record the upsert merges field by field, persists, and the
  full updated record is returned. Two requests for the device \<open>phone\<close> on an empty
  collection: the first creates the record and is answered with it. The second finds it,
  merges the patch and persists the merged document, and the value the handler returns
  is that document with \<open>_id\<close>; the answer to the client is status 500, not the record.
  \<open>get_settings\<close>, which removes \<open>_id\<close>, delivers the same record.
\<close>

theorem update_response_not_encodable:
  "post_settings_endpoint example_env [] ''phone'' empty_patch
     = ([stored_after_create],
        Inr \<lparr> success = True, data = Some (AList.delete ''_id'' stored_after_create) \<rparr>)
   \<and> create_or_update_settings later_env [stored_after_create] ''phone'' example_patch
     = ([stored_after_update], Inr \<lparr> success = True, data = Some stored_after_update \<rparr>)
   \<and> map_of stored_after_update ''_id'' = Some (VObjectId 2)
   \<and> post_settings_endpoint later_env [stored_after_create] ''phone'' example_patch
     = ([stored_after_update], Inl (InternalServerError ValueError))
   \<and> get_settings_endpoint later_env [stored_after_update] ''phone''
     = Inr \<lparr> success = True, data = Some (AList.delete ''_id'' stored_after_update) \<rparr>"
proof (intro conjI)
  show "post_settings_endpoint example_env [] ''phone'' empty_patch
     = ([stored_after_create],
        Inr \<lparr> success = True, data = Some (AList.delete ''_id'' stored_after_create) \<rparr>)"
    by (simp add: post_settings_endpoint_def create_then_stored)
      (simp add: encodable_doc_def encodable_val_def stored_after_create_def AList.delete_eq)
  show "create_or_update_settings later_env [stored_after_create] ''phone'' example_patch
     = ([stored_after_update], Inr \<lparr> success = True, data = Some stored_after_update \<rparr>)"
    by (rule update_handler_value)
  show "map_of stored_after_update ''_id'' = Some (VObjectId 2)"
    by (simp add: stored_after_update_def)
  show "post_settings_endpoint later_env [stored_after_create] ''phone'' example_patch
     = ([stored_after_update], Inl (InternalServerError ValueError))"
    by (simp add: post_settings_endpoint_def update_handler_value)
      (simp add: encodable_doc_def encodable_val_def stored_after_update_def)
  show "get_settings_endpoint later_env [stored_after_update] ''phone''
     = Inr \<lparr> success = True, data = Some (AList.delete ''_id'' stored_after_update) \<rparr>"
    by (simp add: get_settings_endpoint_def get_settings_def later_env_def find_one_def
        matches_def truthy_def encodable_doc_def encodable_val_def stored_after_update_def
        AList.delete_eq)
qed

text \<open>
  C5. When no record for the device exists and the store answers, the upsert inserts and
  returns a new record: \<open>id\<close> is the identifier generated for the call, \<open>device_id\<close> the
  input, \<open>created_at\<close> and \<open>updated_at\<close> the two clock readings of the call, a field the
  patch carries takes the patch's value, and the others take the defaults: language
  \<open>tr\<close>, theme \<open>dark\<close>, notifications enabled, sound \<open>default\<close>, calculation method 13,
  latitude, longitude, city and country \<open>None\<close>.
\<close>

theorem upsert_not_found_creates:
  assumes "no_fault e" and "find_one coll dev = None"
  shows "let new =
           [(''id'', VStr (uuid4 e)),
            (''device_id'', VStr dev),
            (''language'',
               VStr (case UserSettingsUpdate.language settings of None \<Rightarrow> ''tr'' | Some v \<Rightarrow> v)),
            (''theme'',
               VStr (case UserSettingsUpdate.theme settings of None \<Rightarrow> ''dark'' | Some v \<Rightarrow> v)),
            (''notification_enabled'',
               VBool (case UserSettingsUpdate.notification_enabled settings of
                        None \<Rightarrow> True | Some v \<Rightarrow> v)),
            (''notification_sound'',
               VStr (case UserSettingsUpdate.notification_sound settings of
                       None \<Rightarrow> ''default'' | Some v \<Rightarrow> v)),
            (''calculation_method'',
               VInt (case UserSettingsUpdate.calculation_method settings of
                       None \<Rightarrow> 13 | Some v \<Rightarrow> v)),
            (''latitude'',
               (case UserSettingsUpdate.latitude settings of None \<Rightarrow> VNone | Some v \<Rightarrow> VFloat v)),
            (''longitude'',
               (case UserSettingsUpdate.longitude settings of None \<Rightarrow> VNone | Some v \<Rightarrow> VFloat v)),
            (''city'',
               (case UserSettingsUpdate.city settings of None \<Rightarrow> VNone | Some v \<Rightarrow> VStr v)),
            (''country'',
               (case UserSettingsUpdate.country settings of None \<Rightarrow> VNone | Some v \<Rightarrow> VStr v)),
            (''created_at'', VDatetime (utcnow e 0)),
            (''updated_at'', VDatetime (utcnow e 1))]
         in create_or_update_settings e coll dev settings
              = (coll @ [(''_id'', VObjectId (object_id e)) # new],
                 Inr \<lparr> success = True, data = Some new \<rparr>)
          \<and> find_one (coll @ [(''_id'', VObjectId (object_id e)) # new]) dev
              = Some ((''_id'', VObjectId (object_id e)) # new)"
proof -
  have f: "db_fault e 0 = None" "db_fault e 1 = None"
    using assms(1) by (simp_all add: no_fault_def)
  have d: "UserSettings_dict (UserSettings_init e dev settings) =
           [(''id'', VStr (uuid4 e)),
            (''device_id'', VStr dev),
            (''language'',
               VStr (case UserSettingsUpdate.language settings of None \<Rightarrow> ''tr'' | Some v \<Rightarrow> v)),
            (''theme'',
               VStr (case UserSettingsUpdate.theme settings of None \<Rightarrow> ''dark'' | Some v \<Rightarrow> v)),
            (''notification_enabled'',
               VBool (case UserSettingsUpdate.notification_enabled settings of
                        None \<Rightarrow> True | Some v \<Rightarrow> v)),
            (''notification_sound'',
               VStr (case UserSettingsUpdate.notification_sound settings of
                       None \<Rightarrow> ''default'' | Some v \<Rightarrow> v)),
            (''calculation_method'',
               VInt (case UserSettingsUpdate.calculation_method settings of
                       None \<Rightarrow> 13 | Some v \<Rightarrow> v)),
            (''latitude'',
               (case UserSettingsUpdate.latitude settings of None \<Rightarrow> VNone | Some v \<Rightarrow> VFloat v)),
            (''longitude'',
               (case UserSettingsUpdate.longitude settings of None \<Rightarrow> VNone | Some v \<Rightarrow> VFloat v)),
            (''city'',
               (case UserSettingsUpdate.city settings of None \<Rightarrow> VNone | Some v \<Rightarrow> VStr v)),
            (''country'',
               (case UserSettingsUpdate.country settings of None \<Rightarrow> VNone | Some v \<Rightarrow> VStr v)),
            (''created_at'', VDatetime (utcnow e 0)),
            (''updated_at'', VDatetime (utcnow e 1))]"
    by (simp add: UserSettings_dict_def UserSettings_init_def kwarg_def opt_def)
  have i: "find_one (insert_one e coll (UserSettings_dict (UserSettings_init e dev settings))) dev
             = Some ((''_id'', VObjectId (object_id e))
                     # UserSettings_dict (UserSettings_init e dev settings))"
    using assms(2) by (simp add: find_one_insert_one_new)
  show ?thesis
    using upsert_not_found [OF f assms(2), of settings] i
    unfolding d Let_def insert_one_def by simp
qed

theorem upsert_not_found_creates_witness:
  "no_fault example_env \<and> find_one [] ''tablet'' = None
   \<and> create_or_update_settings example_env [] ''tablet'' empty_patch
       = ([[(''_id'', VObjectId 2), (''id'', VStr ''6f1c''), (''device_id'', VStr ''tablet''),
            (''language'', VStr ''tr''), (''theme'', VStr ''dark''),
            (''notification_enabled'', VBool True), (''notification_sound'', VStr ''default''),
            (''calculation_method'', VInt 13), (''latitude'', VNone), (''longitude'', VNone),
            (''city'', VNone), (''country'', VNone),
            (''created_at'', VDatetime 1000), (''updated_at'', VDatetime 1001)]],
          Inr \<lparr> success = True, data = Some
           [(''id'', VStr ''6f1c''), (''device_id'', VStr ''tablet''),
            (''language'', VStr ''tr''), (''theme'', VStr ''dark''),
            (''notification_enabled'', VBool True), (''notification_sound'', VStr ''default''),
            (''calculation_method'', VInt 13), (''latitude'', VNone), (''longitude'', VNone),
            (''city'', VNone), (''country'', VNone),
            (''created_at'', VDatetime 1000), (''updated_at'', VDatetime 1001)] \<rparr>)"
proof -
  have h: "find_one [] ''tablet'' = None" by (simp add: find_one_def)
  from upsert_not_found_creates [OF example_no_fault h, of empty_patch]
  show ?thesis
    using example_no_fault h by (simp add: Let_def empty_patch_def example_env_def)
qed

text \<open>
  C6. Whatever sequence of upserts runs on a collection, a device that had no record ends
  with at most one, and no device gains a second one; a record that exists keeps its
  \<open>device_id\<close>, \<open>id\<close> and \<open>created_at\<close> through the whole sequence; and one upsert for
  the device changes no field other than the patched ones and \<open>updated_at\<close>.
\<close>

theorem upsert_one_record_frame:
  "count_device (run_upserts coll reqs) dev \<le> max 1 (count_device coll dev)
   \<and> (find_one coll dev = Some old \<longrightarrow>
        (\<exists>new. find_one (run_upserts coll reqs) dev = Some new
           \<and> map_of new ''device_id'' = map_of old ''device_id''
           \<and> map_of new ''id'' = map_of old ''id''
           \<and> map_of new ''created_at'' = map_of old ''created_at''))
   \<and> (find_one coll dev = Some old \<longrightarrow>
        (\<exists>new. find_one (fst (create_or_update_settings e coll dev settings)) dev = Some new
           \<and> (\<forall>k. k \<noteq> ''updated_at'' \<longrightarrow> \<not> patched settings k \<longrightarrow>
                  map_of new k = map_of old k)))"
proof (intro conjI impI)
  show "count_device (run_upserts coll reqs) dev \<le> max 1 (count_device coll dev)"
    by (rule run_upserts_count)
next
  assume f: "find_one coll dev = Some old"
  have *: "\<exists>new. find_one (run_upserts coll reqs) dev = Some new
             \<and> map_of new k = map_of old k"
    if "k \<noteq> ''updated_at''" "\<And>s. \<not> patched s k" for k
    using run_upserts_keeps [OF f that] .
  from * [of "''device_id''"] * [of "''id''"] * [of "''created_at''"]
  show "\<exists>new. find_one (run_upserts coll reqs) dev = Some new
           \<and> map_of new ''device_id'' = map_of old ''device_id''
           \<and> map_of new ''id'' = map_of old ''id''
           \<and> map_of new ''created_at'' = map_of old ''created_at''"
    by (auto simp: not_patched_device_id not_patched_id not_patched_created_at)
next
  assume f: "find_one coll dev = Some old"
  from upsert_step_keeps [OF f, of e dev settings]
  show "\<exists>new. find_one (fst (create_or_update_settings e coll dev settings)) dev = Some new
           \<and> (\<forall>k. k \<noteq> ''updated_at'' \<longrightarrow> \<not> patched settings k \<longrightarrow>
                  map_of new k = map_of old k)"
    by simp
qed

theorem upsert_one_record_frame_witness:
  "find_one [example_doc] ''phone'' = Some example_doc
   \<and> count_device
         (run_upserts [example_doc]
            [(example_env, ''phone'', example_patch), (later_env, ''tablet'', empty_patch)])
         ''phone'' \<le> 1
   \<and> (\<exists>new. find_one
                (run_upserts [example_doc]
                   [(example_env, ''phone'', example_patch), (later_env, ''tablet'', empty_patch)])
                ''phone'' = Some new
          \<and> map_of new ''device_id'' = Some (VStr ''phone'')
          \<and> map_of new ''id'' = Some (VStr ''a9e0'')
          \<and> map_of new ''created_at'' = Some (VDatetime 500))
   \<and> (\<exists>new. find_one
                (fst (create_or_update_settings example_env [example_doc] ''phone'' example_patch))
                ''phone'' = Some new
          \<and> map_of new ''theme'' = Some (VStr ''dark''))"
proof -
  have c: "count_device [example_doc] ''phone'' = 1"
    by (simp add: count_device_def matches_def example_doc_def)
  have p: "\<not> patched example_patch ''theme''"
    by (simp add: patched_def UserSettingsUpdate_dict_def example_patch_def opt_def)
  have d: "map_of example_doc ''device_id'' = Some (VStr ''phone'')"
    "map_of example_doc ''id'' = Some (VStr ''a9e0'')"
    "map_of example_doc ''created_at'' = Some (VDatetime 500)"
    "map_of example_doc ''theme'' = Some (VStr ''dark'')"
    by (simp_all add: example_doc_def)
  from upsert_one_record_frame [of "[example_doc]"
      "[(example_env, ''phone'', example_patch), (later_env, ''tablet'', empty_patch)]"
      "''phone''" example_doc example_env example_patch]
  show ?thesis
    using example_find_one c p d by (simp del: run_upserts.simps) fastforce
qed

text \<open>
  C7. Applying the same patch twice to an existing record: after the second application
  every field other than \<open>updated_at\<close> has the value it had after the first.
\<close>

theorem upsert_same_patch_twice:
  assumes "no_fault e1" and "no_fault e2" and "find_one coll dev = Some existing"
  shows "\<exists>c1 u1 c2 u2.
           create_or_update_settings e1 coll dev settings
             = (c1, Inr \<lparr> success = True, data = Some u1 \<rparr>)
         \<and> create_or_update_settings e2 c1 dev settings
             = (c2, Inr \<lparr> success = True, data = Some u2 \<rparr>)
         \<and> find_one c1 dev = Some u1
         \<and> find_one c2 dev = Some u2
         \<and> (\<forall>k. k \<noteq> ''updated_at'' \<longrightarrow> map_of u2 k = map_of u1 k)
         \<and> map_of u1 ''updated_at'' = Some (VDatetime (utcnow e1 0))
         \<and> map_of u2 ''updated_at'' = Some (VDatetime (utcnow e2 0))"
proof -
  define c1 where "c1 = update_one coll dev (update_data_of e1 settings)"
  define u1 where "u1 = set_fields (update_data_of e1 settings) existing"
  define c2 where "c2 = update_one c1 dev (update_data_of e2 settings)"
  define u2 where "u2 = set_fields (update_data_of e2 settings) u1"
  have f1: "find_one c1 dev = Some u1"
    unfolding c1_def u1_def by (rule find_one_update_one [OF assms(3)])
  have f2: "find_one c2 dev = Some u2"
    unfolding c2_def u2_def by (rule find_one_update_one [OF f1])
  have r1: "create_or_update_settings e1 coll dev settings
              = (c1, Inr \<lparr> success = True, data = Some u1 \<rparr>)"
    unfolding c1_def u1_def by (rule upsert_found [OF assms(1,3)])
  have r2: "create_or_update_settings e2 c1 dev settings
              = (c2, Inr \<lparr> success = True, data = Some u2 \<rparr>)"
    unfolding c2_def u2_def by (rule upsert_found [OF assms(2) f1])
  have same: "\<forall>k. k \<noteq> ''updated_at'' \<longrightarrow> map_of u2 k = map_of u1 k"
    by (simp add: u2_def u1_def map_of_merged)
  have t1: "map_of u1 ''updated_at'' = Some (VDatetime (utcnow e1 0))"
    by (simp add: u1_def map_of_merged)
  have t2: "map_of u2 ''updated_at'' = Some (VDatetime (utcnow e2 0))"
    by (simp add: u2_def map_of_merged)
  from r1 r2 f1 f2 same t1 t2 show ?thesis by blast
qed

theorem upsert_same_patch_twice_witness:
  "no_fault example_env \<and> no_fault later_env
   \<and> find_one [example_doc] ''phone'' = Some example_doc
   \<and> (\<exists>c1 u1 c2 u2.
         create_or_update_settings example_env [example_doc] ''phone'' example_patch
           = (c1, Inr \<lparr> success = True, data = Some u1 \<rparr>)
       \<and> create_or_update_settings later_env c1 ''phone'' example_patch
           = (c2, Inr \<lparr> success = True, data = Some u2 \<rparr>)
       \<and> find_one c1 ''phone'' = Some u1
       \<and> find_one c2 ''phone'' = Some u2
       \<and> (\<forall>k. k \<noteq> ''updated_at'' \<longrightarrow> map_of u2 k = map_of u1 k)
       \<and> map_of u1 ''updated_at'' = Some (VDatetime 1000)
       \<and> map_of u2 ''updated_at'' = Some (VDatetime 2000))"
proof -
  have t: "utcnow example_env 0 = 1000" "utcnow later_env 0 = 2000"
    by (simp_all add: example_env_def later_env_def)
  from upsert_same_patch_twice [OF example_no_fault later_no_fault example_find_one, of example_patch]
  show ?thesis
    using example_no_fault later_no_fault example_find_one unfolding t by blast
qed

text \<open>
  C9. For a device with no record in the collection and no upsert in the sequence of
  requests handled since, \<open>get_settings\<close> answers success with \<open>None\<close> as data.
\<close>

theorem get_settings_never_upserted:
  assumes "db_fault e 0 = None"
    and "find_one coll dev = None"
    and "dev \<notin> set (map request_device reqs)"
  shows "get_settings e (run_upserts coll reqs) dev = Inr \<lparr> success = True, data = None \<rparr>"
proof -
  have "dev \<notin> set (map (\<lambda>r. fst (snd r)) reqs)"
    using assms(3) by (simp add: request_device_def [abs_def])
  then have "find_one (run_upserts coll reqs) dev = None"
    using assms(2) by (intro run_upserts_absent)
  then show ?thesis
    using assms(1) by (simp add: get_settings_def truthy_def)
qed

theorem get_settings_never_upserted_witness:
  "db_fault example_env 0 = None \<and> find_one [] ''tablet'' = None
   \<and> ''tablet'' \<notin> set (map request_device [(example_env, ''phone'', example_patch)])
   \<and> get_settings example_env (run_upserts [] [(example_env, ''phone'', example_patch)]) ''tablet''
       = Inr \<lparr> success = True, data = None \<rparr>"
proof -
  have h1: "db_fault example_env 0 = None" by (simp add: example_env_def)
  have h2: "find_one [] ''tablet'' = None" by (simp add: find_one_def)
  have h3: "''tablet'' \<notin> set (map request_device [(example_env, ''phone'', example_patch)])"
    by (simp add: request_device_def)
  from get_settings_never_upserted [OF h1 h2 h3] h1 h2 h3 show ?thesis by blast
qed

section \<open>Properties of the query parameters\<close>

lemma rejected_validation:
  "errs \<noteq> [] \<Longrightarrow> rejected ([], Inl (RequestValidationError errs))"
  by (simp add: rejected_def)







text \<open>
  A coordinate that parses to an infinity or to \<open>nan\<close> is not rejected either; the
  direction endpoint answers status 500 (the calculation raises, or the body has no
  encoding).
\<close>

lemma not_finite_coordinate_answers_500:
  "qibla_endpoint example_framework [(''latitude'', ''inf''), (''longitude'', ''0'')]
     = ([], Inl (InternalServerError ValueError))
   \<and> qibla_endpoint example_framework [(''latitude'', ''nan''), (''longitude'', ''0'')]
     = ([], Inl (InternalServerError ValueError))"
  by (simp add: required_float_def lookup_def example_framework_def qibla_endpoint_def
      get_qibla_direction_def respond_def)

section \<open>Properties of the calculation methods\<close>

text \<open>
  C10. The list has 14 entries, their ids are 0 to 5 and 7 to 14 in this order, no entry
  has id 6, and so the ids are not the range from 0 to 13.
\<close>

theorem calculation_method_ids:
  "map (\<lambda>m. map_of m ''id'') (data get_calculation_methods)
     = map (\<lambda>i. Some (VInt i)) [0, 1, 2, 3, 4, 5, 7, 8, 9, 10, 11, 12, 13, 14]
   \<and> length (data get_calculation_methods) = 14
   \<and> Some (VInt 6) \<notin> set (map (\<lambda>m. map_of m ''id'') (data get_calculation_methods))
   \<and> map (\<lambda>m. map_of m ''id'') (data get_calculation_methods)
       \<noteq> map (\<lambda>i. Some (VInt (int i))) [0 ..< 14]"
  by (simp add: get_calculation_methods_def methods_def upt_rec)

end
